theory Spec2Isabelle
  imports Main "HOL-Library.Char_ord" "HOL-Library.List_Lexorder"
begin

chapter \<open>The dnsimple-go client core (aetrion/strillone, vendored dnsimple package)\<close>

text \<open>
  A shallow embedding of the request/response plumbing of the vendored
  \<^verbatim>\<open>dnsimple\<close> Go package: credentials and their HTTP header, response checking,
  the rate-limit accessors, the query-options encoder \<^verbatim>\<open>addURLQueryOptions\<close>, and the
  webhook event dispatcher \<^verbatim>\<open>switchEvent\<close>.

  Go strings and byte slices are byte sequences: they are modelled as \<^typ>\<open>string\<close>
  (a list of 8-bit \<^typ>\<open>char\<close>). Functions of the Go standard library that the
  package calls (\<^verbatim>\<open>encoding/base64\<close>, \<^verbatim>\<open>strconv\<close>, \<^verbatim>\<open>net/url\<close>,
  \<^verbatim>\<open>encoding/json\<close>, \<^verbatim>\<open>net/textproto\<close>) are modelled after their
  documented behaviour; each such definition says so.
\<close>

section \<open>Definitions\<close>

subsection \<open>Credentials (authentication.go)\<close>

text \<open>
  The three implementations of the \<^verbatim>\<open>Credentials\<close> interface, one constructor per
  struct type; the constructors carry the struct fields.
\<close>

datatype Credentials =
    domainTokenCredentials string
  | httpBasicCredentials string string
  | oauthTokenCredentials string

definition httpHeaderDomainToken :: string where
  "httpHeaderDomainToken = ''X-DNSimple-Domain-Token''"

definition httpHeaderApiToken :: string where
  "httpHeaderApiToken = ''X-DNSimple-Token''"

definition httpHeaderAuthorization :: string where
  "httpHeaderAuthorization = ''Authorization''"

text \<open>
  \<^verbatim>\<open>base64.StdEncoding\<close> (standard library): the RFC 4648 alphabet with \<^verbatim>\<open>=\<close>
  padding. \<open>enc6 n\<close> is \<^verbatim>\<open>enc.encode[n & 0x3F]\<close>; \<open>EncodeToString\<close> follows
  \<^verbatim>\<open>Encoding.Encode\<close>: three bytes make a 24-bit value that is cut into four
  sextets, and a last group of one or two bytes is padded.
\<close>

definition encodeStd :: string where
  "encodeStd = ''ABCDEFGHIJKLMNOPQRSTUVWXYZabcdefghijklmnopqrstuvwxyz0123456789+/''"

definition enc6 :: "nat \<Rightarrow> char" where
  "enc6 n = encodeStd ! (n mod 64)"

fun EncodeToString :: "string \<Rightarrow> string" where
  "EncodeToString (a # b # c # src) =
     (let v = of_char a * 65536 + of_char b * 256 + of_char c in
        enc6 (v div 262144) # enc6 (v div 4096) # enc6 (v div 64) # enc6 v # EncodeToString src)"
| "EncodeToString [a, b] =
     (let v = of_char a * 65536 + of_char b * 256 in
        [enc6 (v div 262144), enc6 (v div 4096), enc6 (v div 64), CHR ''=''])"
| "EncodeToString [a] =
     (let v = of_char a * 65536 in
        [enc6 (v div 262144), enc6 (v div 4096), CHR ''='', CHR ''=''])"
| "EncodeToString [] = []"

text \<open>
  \<^verbatim>\<open>StdEncoding.DecodeString\<close> (standard library), used to read a header value
  back: carriage returns and line feeds are skipped, every other byte must be in the
  alphabet, the input is read in groups of four, and padding may only end the last
  group. \<open>decodeMap\<close> is the inverse table of the alphabet.
\<close>

fun index_of :: "'a \<Rightarrow> 'a list \<Rightarrow> nat option" where
  "index_of c [] = None"
| "index_of c (x # xs) = (if c = x then Some 0 else map_option Suc (index_of c xs))"

definition decodeMap :: "char \<Rightarrow> nat option" where
  "decodeMap c = index_of c encodeStd"

fun decodeQuanta :: "string \<Rightarrow> string option" where
  "decodeQuanta [] = Some []"
| "decodeQuanta (c0 # c1 # c2 # c3 # rest) =
     (case (decodeMap c0, decodeMap c1) of
        (Some v0, Some v1) \<Rightarrow>
          (if c2 = CHR ''='' then
             (if c3 = CHR ''='' \<and> rest = []
              then Some [char_of ((v0 * 262144 + v1 * 4096) div 65536)] else None)
           else (case decodeMap c2 of
             None \<Rightarrow> None
           | Some v2 \<Rightarrow>
               (if c3 = CHR ''='' then
                  (if rest = []
                   then Some [char_of ((v0 * 262144 + v1 * 4096 + v2 * 64) div 65536),
                              char_of ((v0 * 262144 + v1 * 4096 + v2 * 64) div 256)]
                   else None)
                else (case decodeMap c3 of
                  None \<Rightarrow> None
                | Some v3 \<Rightarrow>
                    map_option
                      (\<lambda>r. char_of ((v0 * 262144 + v1 * 4096 + v2 * 64 + v3) div 65536) #
                           char_of ((v0 * 262144 + v1 * 4096 + v2 * 64 + v3) div 256) #
                           char_of (v0 * 262144 + v1 * 4096 + v2 * 64 + v3) # r)
                      (decodeQuanta rest)))))
      | _ \<Rightarrow> None)"
| "decodeQuanta _ = None"

definition DecodeString :: "string \<Rightarrow> string option" where
  "DecodeString s = decodeQuanta (filter (\<lambda>c. c \<noteq> CHR 0x0D \<and> c \<noteq> CHR 0x0A) s)"

text \<open>\<^verbatim>\<open>basicAuth\<close> and the three \<^verbatim>\<open>HttpHeader\<close> methods, as in the source.
  \<^verbatim>\<open>fmt.Sprintf("Bearer %v", s)\<close> of a string \<open>s\<close> is the concatenation.\<close>

definition basicAuth :: "string \<Rightarrow> string \<Rightarrow> string" where
  "basicAuth username password = (let auth = username @ '':'' @ password in EncodeToString auth)"

fun HttpHeader :: "Credentials \<Rightarrow> string \<times> string" where
  "HttpHeader (domainTokenCredentials domainToken) = (httpHeaderDomainToken, domainToken)"
| "HttpHeader (httpBasicCredentials email password) =
     (httpHeaderAuthorization, ''Basic '' @ basicAuth email password)"
| "HttpHeader (oauthTokenCredentials oauthToken) =
     (httpHeaderAuthorization, ''Bearer '' @ oauthToken)"

subsection \<open>JSON texts (standard library \<^verbatim>\<open>encoding/json\<close>)\<close>

text \<open>
  A decoded JSON value. A number keeps its literal text, as Go's decoder does until the
  type of the destination is known. An object keeps its members in the order of the text,
  duplicates included: the decoder stores them one after the other.
\<close>

datatype json =
    JNull
  | JBool bool
  | JNumber string
  | JString string
  | JArray "json list"
  | JObject "(string \<times> json) list"

datatype json_error = EOF | ErrUnexpectedEOF | SyntaxError | UnmarshalTypeError

text \<open>
  UTF-8, as \<^verbatim>\<open>utf8.DecodeRune\<close> and \<^verbatim>\<open>utf8.EncodeRune\<close> read and write it.
  \<open>rune_len s\<close> is the length of the well-formed encoding at the head of \<open>s\<close>, or 0.
  \<open>utf8_fix\<close> replaces every byte that starts no well-formed encoding by U+FFFD, which
  is what decoding a JSON string does to invalid UTF-8; \<open>utf8_skip k\<close> copies the
  \<open>k\<close> bytes that remain of the encoding it is in.
\<close>

definition in_range :: "nat \<Rightarrow> nat \<Rightarrow> char \<Rightarrow> bool" where
  "in_range lo hi c = (lo \<le> of_char c \<and> of_char c \<le> hi)"

fun rune_len :: "string \<Rightarrow> nat" where
  "rune_len [] = 0"
| "rune_len (a # s) =
     (if of_char a < (0x80::nat) then 1
      else if in_range 0xC2 0xDF a then
        (case s of b # _ \<Rightarrow> if in_range 0x80 0xBF b then 2 else 0 | _ \<Rightarrow> 0)
      else if in_range 0xE0 0xEF a then
        (case s of b # c # _ \<Rightarrow>
           if in_range (if a = CHR 0xE0 then 0xA0 else 0x80) (if a = CHR 0xED then 0x9F else 0xBF) b
              \<and> in_range 0x80 0xBF c then 3 else 0
         | _ \<Rightarrow> 0)
      else if in_range 0xF0 0xF4 a then
        (case s of b # c # d # _ \<Rightarrow>
           if in_range (if a = CHR 0xF0 then 0x90 else 0x80) (if a = CHR 0xF4 then 0x8F else 0xBF) b
              \<and> in_range 0x80 0xBF c \<and> in_range 0x80 0xBF d then 4 else 0
         | _ \<Rightarrow> 0)
      else 0)"

definition replacement_char :: string where
  "replacement_char = [CHR 0xEF, CHR 0xBF, CHR 0xBD]"

fun utf8_skip :: "nat \<Rightarrow> string \<Rightarrow> string" where
  "utf8_skip k [] = []"
| "utf8_skip k (a # s) =
     (if 0 < k then a # utf8_skip (k - 1) s
      else (case rune_len (a # s) of
              0 \<Rightarrow> replacement_char @ utf8_skip 0 s
            | Suc n \<Rightarrow> a # utf8_skip n s))"

definition utf8_fix :: "string \<Rightarrow> string" where
  "utf8_fix s = utf8_skip 0 s"

definition utf8_encode :: "nat \<Rightarrow> string" where
  "utf8_encode r =
     (if r < 0x80 then [char_of r]
      else if r < 0x800 then [char_of (0xC0 + r div 64), char_of (0x80 + r mod 64)]
      else if 0x10FFFF < r \<or> (0xD800 \<le> r \<and> r \<le> 0xDFFF) then replacement_char
      else if r < 0x10000 then
        [char_of (0xE0 + r div 4096), char_of (0x80 + (r div 64) mod 64), char_of (0x80 + r mod 64)]
      else
        [char_of (0xF0 + r div 262144), char_of (0x80 + (r div 4096) mod 64),
         char_of (0x80 + (r div 64) mod 64), char_of (0x80 + r mod 64)])"

text \<open>Hexadecimal digits, and the four of a \<^verbatim>\<open>\uXXXX\<close> escape (\<^verbatim>\<open>getu4\<close>).\<close>

definition hex_val :: "char \<Rightarrow> nat option" where
  "hex_val c =
     (if in_range 0x30 0x39 c then Some (of_char c - 0x30)
      else if in_range 0x61 0x66 c then Some (of_char c - 0x61 + 10)
      else if in_range 0x41 0x46 c then Some (of_char c - 0x41 + 10)
      else None)"

fun hex4 :: "string \<Rightarrow> nat option" where
  "hex4 (a # b # c # d # _) =
     (case (hex_val a, hex_val b, hex_val c, hex_val d) of
        (Some x, Some y, Some z, Some w) \<Rightarrow> Some (((x * 16 + y) * 16 + z) * 16 + w)
      | _ \<Rightarrow> None)"
| "hex4 _ = None"

fun getu4 :: "string \<Rightarrow> nat option" where
  "getu4 (bs # u # s) = (if bs = CHR 0x5C \<and> u = CHR ''u'' then hex4 s else None)"
| "getu4 _ = None"

definition esc_char :: "char \<Rightarrow> char" where
  "esc_char e =
     (if e = CHR ''b'' then CHR 0x08 else if e = CHR ''f'' then CHR 0x0C
      else if e = CHR ''n'' then CHR 0x0A else if e = CHR ''r'' then CHR 0x0D
      else if e = CHR ''t'' then CHR 0x09 else e)"

text \<open>
  \<^verbatim>\<open>unquote\<close>: the bytes of a string literal (between its quotes, already checked by
  the scanner) with the escapes replaced. A \<^verbatim>\<open>\u\<close> escape of a high surrogate
  followed by one of a low surrogate is one code point; a surrogate without its partner
  is U+FFFD.
\<close>

fun unescape_json :: "string \<Rightarrow> string" where
  "unescape_json [] = []"
| "unescape_json [c] = [c]"
| "unescape_json (c # e # s) =
     (if c \<noteq> CHR 0x5C then c # unescape_json (e # s)
      else if e \<noteq> CHR ''u'' then esc_char e # unescape_json s
      else (case hex4 s of
          None \<Rightarrow> []
        | Some r \<Rightarrow>
            if 0xD800 \<le> r \<and> r < 0xE000 then
              (case getu4 (drop 4 s) of
                 Some r1 \<Rightarrow>
                   if r < 0xDC00 \<and> 0xDC00 \<le> r1 \<and> r1 < 0xE000
                   then utf8_encode ((r - 0xD800) * 1024 + (r1 - 0xDC00) + 0x10000)
                          @ unescape_json (drop 10 s)
                   else replacement_char @ unescape_json (drop 4 s)
               | None \<Rightarrow> replacement_char @ unescape_json (drop 4 s))
            else utf8_encode r @ unescape_json (drop 4 s)))"

definition unquote :: "string \<Rightarrow> string" where
  "unquote raw = utf8_fix (unescape_json raw)"

text \<open>
  The scanner. It reads one byte at a time, like Go's \<^verbatim>\<open>scanner.step\<close>, and emits the
  tokens of the text; at the first byte that no JSON text can have there it emits
  \<open>TBad\<close> and stops. The states of a number literal are those of the Go scanner
  (\<^verbatim>\<open>stateNeg\<close>, \<^verbatim>\<open>state0\<close>, \<^verbatim>\<open>state1\<close>, \<^verbatim>\<open>stateDot\<close>, \<^verbatim>\<open>stateDot0\<close>,
  \<^verbatim>\<open>stateE\<close>, \<^verbatim>\<open>stateESign\<close>, \<^verbatim>\<open>stateE0\<close>).
\<close>

datatype token = TLBrace | TRBrace | TLBrack | TRBrack | TColon | TComma | TLit json | TBad

datatype nstate = NNeg | N0 | N1 | NDot | NDot0 | NE | NESign | NE0

datatype lstate =
    LStart
  | LStr string
  | LEsc string
  | LU string nat
  | LNum string nstate
  | LLit string json
  | LDead

definition is_digit :: "char \<Rightarrow> bool" where
  "is_digit c = in_range 0x30 0x39 c"

definition is_space :: "char \<Rightarrow> bool" where
  "is_space c = (c = CHR '' '' \<or> c = CHR 0x09 \<or> c = CHR 0x0D \<or> c = CHR 0x0A)"

definition num_accepting :: "nstate \<Rightarrow> bool" where
  "num_accepting ns = (ns = N0 \<or> ns = N1 \<or> ns = NDot0 \<or> ns = NE0)"

fun num_next :: "nstate \<Rightarrow> char \<Rightarrow> nstate option" where
  "num_next NNeg c = (if c = CHR ''0'' then Some N0 else if is_digit c then Some N1 else None)"
| "num_next N1 c =
     (if is_digit c then Some N1 else if c = CHR ''.'' then Some NDot
      else if c = CHR ''e'' \<or> c = CHR ''E'' then Some NE else None)"
| "num_next N0 c =
     (if c = CHR ''.'' then Some NDot
      else if c = CHR ''e'' \<or> c = CHR ''E'' then Some NE else None)"
| "num_next NDot c = (if is_digit c then Some NDot0 else None)"
| "num_next NDot0 c =
     (if is_digit c then Some NDot0
      else if c = CHR ''e'' \<or> c = CHR ''E'' then Some NE else None)"
| "num_next NE c =
     (if c = CHR ''+'' \<or> c = CHR ''-'' then Some NESign
      else if is_digit c then Some NE0 else None)"
| "num_next NESign c = (if is_digit c then Some NE0 else None)"
| "num_next NE0 c = (if is_digit c then Some NE0 else None)"

definition lstep0 :: "char \<Rightarrow> token list \<times> lstate" where
  "lstep0 c =
     (if is_space c then ([], LStart)
      else if c = CHR ''{'' then ([TLBrace], LStart)
      else if c = CHR ''}'' then ([TRBrace], LStart)
      else if c = CHR ''['' then ([TLBrack], LStart)
      else if c = CHR '']'' then ([TRBrack], LStart)
      else if c = CHR '':'' then ([TColon], LStart)
      else if c = CHR '','' then ([TComma], LStart)
      else if c = CHR 0x22 then ([], LStr [])
      else if c = CHR ''-'' then ([], LNum [c] NNeg)
      else if c = CHR ''0'' then ([], LNum [c] N0)
      else if is_digit c then ([], LNum [c] N1)
      else if c = CHR ''t'' then ([], LLit ''rue'' (JBool True))
      else if c = CHR ''f'' then ([], LLit ''alse'' (JBool False))
      else if c = CHR ''n'' then ([], LLit ''ull'' JNull)
      else ([TBad], LDead))"

fun lstep :: "lstate \<Rightarrow> char \<Rightarrow> token list \<times> lstate" where
  "lstep LStart c = lstep0 c"
| "lstep LDead c = ([], LDead)"
| "lstep (LStr raw) c =
     (if c = CHR 0x22 then ([TLit (JString (unquote (rev raw)))], LStart)
      else if c = CHR 0x5C then ([], LEsc (c # raw))
      else if of_char c < (0x20::nat) then ([TBad], LDead)
      else ([], LStr (c # raw)))"
| "lstep (LEsc raw) c =
     (if c \<in> set [CHR 0x22, CHR 0x5C, CHR ''/'', CHR ''b'', CHR ''f'', CHR ''n'', CHR ''r'', CHR ''t'']
      then ([], LStr (c # raw))
      else if c = CHR ''u'' then ([], LU (c # raw) 4)
      else ([TBad], LDead))"
| "lstep (LU raw k) c =
     (if hex_val c = None then ([TBad], LDead)
      else if k \<le> 1 then ([], LStr (c # raw))
      else ([], LU (c # raw) (k - 1)))"
| "lstep (LNum raw ns) c =
     (case num_next ns c of
        Some ns' \<Rightarrow> ([], LNum (c # raw) ns')
      | None \<Rightarrow>
          if num_accepting ns
          then (TLit (JNumber (rev raw)) # fst (lstep0 c), snd (lstep0 c))
          else ([TBad], LDead))"
| "lstep (LLit expected v) c =
     (case expected of
        [] \<Rightarrow> ([TBad], LDead)
      | e # es \<Rightarrow>
          if c \<noteq> e then ([TBad], LDead)
          else if es = [] then ([TLit v], LStart)
          else ([], LLit es v))"

fun lfinish :: "lstate \<Rightarrow> token list" where
  "lfinish (LNum raw ns) = (if num_accepting ns then [TLit (JNumber (rev raw))] else [])"
| "lfinish _ = []"

fun scan :: "lstate \<Rightarrow> string \<Rightarrow> token list" where
  "scan st [] = lfinish st"
| "scan st (c # cs) = fst (lstep st c) @ scan (snd (lstep st c)) cs"

text \<open>
  The token parser: a stack of the arrays and objects that are open, each with the
  members read so far (in reverse), and what may come next. \<open>PDone v more\<close> is a
  complete top-level value \<open>v\<close>; \<open>more\<close> says that a token followed it. Go's scanner
  allows at most 10000 open arrays and objects (\<^verbatim>\<open>maxNestingDepth\<close>).
\<close>

datatype frame = FArr "json list" | FObj "(string \<times> json) list" "string option"

datatype pstate =
    PValue "frame list"
  | PValueOrEnd "frame list"
  | PKeyOrEnd "frame list"
  | PKey "frame list"
  | PColon "frame list"
  | PAfter "frame list"
  | PDone json bool
  | PErr

definition maxNestingDepth :: nat where
  "maxNestingDepth = 10000"

fun push_value :: "json \<Rightarrow> frame list \<Rightarrow> pstate" where
  "push_value v [] = PDone v False"
| "push_value v (FArr xs # st) = PAfter (FArr (v # xs) # st)"
| "push_value v (FObj kvs (Some k) # st) = PAfter (FObj ((k, v) # kvs) None # st)"
| "push_value v (FObj kvs None # st) = PErr"

definition open_frame :: "frame \<Rightarrow> frame list \<Rightarrow> (frame list \<Rightarrow> pstate) \<Rightarrow> pstate" where
  "open_frame f st next = (if maxNestingDepth < Suc (length st) then PErr else next (f # st))"

fun begin_value :: "frame list \<Rightarrow> token \<Rightarrow> pstate" where
  "begin_value st (TLit v) = push_value v st"
| "begin_value st TLBrace = open_frame (FObj [] None) st PKeyOrEnd"
| "begin_value st TLBrack = open_frame (FArr []) st PValueOrEnd"
| "begin_value st _ = PErr"

fun pstep :: "pstate \<Rightarrow> token \<Rightarrow> pstate" where
  "pstep (PDone v more) t = PDone v True"
| "pstep PErr t = PErr"
| "pstep (PValue st) t = begin_value st t"
| "pstep (PValueOrEnd st) t =
     (case (t, st) of
        (TRBrack, FArr xs # st') \<Rightarrow> push_value (JArray (rev xs)) st'
      | _ \<Rightarrow> begin_value st t)"
| "pstep (PKeyOrEnd st) t =
     (case (t, st) of
        (TRBrace, FObj kvs None # st') \<Rightarrow> push_value (JObject (rev kvs)) st'
      | (TLit (JString k), FObj kvs None # st') \<Rightarrow> PColon (FObj kvs (Some k) # st')
      | _ \<Rightarrow> PErr)"
| "pstep (PKey st) t =
     (case (t, st) of
        (TLit (JString k), FObj kvs None # st') \<Rightarrow> PColon (FObj kvs (Some k) # st')
      | _ \<Rightarrow> PErr)"
| "pstep (PColon st) t = (case t of TColon \<Rightarrow> PValue st | _ \<Rightarrow> PErr)"
| "pstep (PAfter st) t =
     (case (t, st) of
        (TComma, FArr xs # st') \<Rightarrow> PValue st
      | (TRBrack, FArr xs # st') \<Rightarrow> push_value (JArray (rev xs)) st'
      | (TComma, FObj kvs None # st') \<Rightarrow> PKey st
      | (TRBrace, FObj kvs None # st') \<Rightarrow> push_value (JObject (rev kvs)) st'
      | _ \<Rightarrow> PErr)"

definition parse_tokens :: "token list \<Rightarrow> pstate" where
  "parse_tokens ts = foldl pstep (PValue []) ts"

text \<open>
  \<open>Decoder_value\<close> is what \<^verbatim>\<open>json.NewDecoder(r).Decode\<close> reads from a stream holding
  the bytes \<open>s\<close>: the first JSON value; what follows it is left in the stream. An empty
  stream (or white space only) is \<^verbatim>\<open>io.EOF\<close>, a stream that ends inside the value is
  \<^verbatim>\<open>io.ErrUnexpectedEOF\<close>. \<open>Unmarshal_value\<close> is what \<^verbatim>\<open>json.Unmarshal\<close> reads:
  the text must be one value and white space.
\<close>

definition Decoder_value :: "string \<Rightarrow> json_error + json" where
  "Decoder_value s =
     (case parse_tokens (scan LStart s) of
        PDone v more \<Rightarrow> Inr v
      | PErr \<Rightarrow> Inl SyntaxError
      | _ \<Rightarrow> if list_all is_space s then Inl EOF else Inl ErrUnexpectedEOF)"


subsection \<open>Integers from text (standard library \<^verbatim>\<open>strconv\<close>)\<close>

text \<open>
  \<^verbatim>\<open>strconv.ParseUint(s, 10, 64)\<close>: the digits are read from the left; a byte that is
  no decimal digit is a syntax error with value 0; as soon as the value read so far
  cannot take another digit the result is the largest unsigned 64-bit value with a
  range error, and the bytes that follow are not looked at.
  \<^verbatim>\<open>strconv.ParseInt(s, 10, 64)\<close> reads a sign and clamps to the signed range.
  \<^verbatim>\<open>strconv.Atoi(s)\<close> is \<^verbatim>\<open>ParseInt(s, 10, 0)\<close> converted to \<^verbatim>\<open>int\<close>;
  \<^verbatim>\<open>int\<close> has 64 bits here. A result is the value together with the error, if any:
  the callers in this package keep the value and drop the error.
\<close>

datatype num_error = ErrSyntax | ErrRange

definition maxUint64 :: nat where
  "maxUint64 = 18446744073709551615"

fun parse_digits :: "nat \<Rightarrow> string \<Rightarrow> nat \<times> num_error option" where
  "parse_digits n [] = (n, None)"
| "parse_digits n (c # cs) =
     (if \<not> is_digit c then (0, Some ErrSyntax)
      else if maxUint64 div 10 + 1 \<le> n then (maxUint64, Some ErrRange)
      else if maxUint64 < n * 10 + (of_char c - 0x30) then (maxUint64, Some ErrRange)
      else parse_digits (n * 10 + (of_char c - 0x30)) cs)"

definition ParseUint :: "string \<Rightarrow> nat \<times> num_error option" where
  "ParseUint s = (if s = [] then (0, Some ErrSyntax) else parse_digits 0 s)"

definition ParseInt :: "string \<Rightarrow> int \<times> num_error option" where
  "ParseInt s =
     (case s of
        [] \<Rightarrow> (0, Some ErrSyntax)
      | c # cs \<Rightarrow>
          (let neg = (c = CHR ''-'');
               s' = (if c = CHR ''+'' \<or> c = CHR ''-'' then cs else s);
               (un, err) = ParseUint s';
               cutoff = (2 :: nat) ^ 63
           in if err = Some ErrSyntax then (0, err)
              else if \<not> neg \<and> cutoff \<le> un then (int cutoff - 1, Some ErrRange)
              else if neg \<and> cutoff < un then (- int cutoff, Some ErrRange)
              else (if neg then - int un else int un, None)))"


subsection \<open>HTTP responses and headers (standard library \<^verbatim>\<open>net/http\<close>, \<^verbatim>\<open>net/textproto\<close>)\<close>

text \<open>
  A header is Go's \<^verbatim>\<open>map[string][]string\<close>. Its methods address a key by its
  canonical form (\<^verbatim>\<open>textproto.CanonicalMIMEHeaderKey\<close>): when every byte of the key is
  a header token byte, the first letter and every letter after a hyphen are made upper
  case and all others lower case; any other key is left as it is.
\<close>

type_synonym Header = "string \<rightharpoonup> string list"

definition is_lower :: "char \<Rightarrow> bool" where
  "is_lower c = in_range 0x61 0x7A c"







text \<open>
  The fields of \<^verbatim>\<open>http.Response\<close> and \<^verbatim>\<open>http.Request\<close> that this package reads.
  \<open>Body\<close> holds the bytes that the body stream will deliver.
\<close>

record http_Request =
  Method :: string
  URL :: string

record http_Response =
  StatusCode :: int
  Header :: Header
  Body :: string
  Request :: http_Request



subsection \<open>Responses and API errors (dnsimple.go)\<close>

record Pagination =
  CurrentPage :: int
  PerPage :: int
  TotalPages :: int
  TotalEntries :: int

text \<open>
  \<^verbatim>\<open>Response\<close> holds pointers; a pointer is \<open>None\<close> when nil. \<^verbatim>\<open>ErrorResponse\<close>
  embeds \<^verbatim>\<open>Response\<close> and adds \<^verbatim>\<open>Message\<close>.
\<close>

record Response =
  HttpResponse :: "http_Response option"
  Pagination :: "Pagination option"

record ErrorResponse = Response +
  Message :: string

text \<open>A Go \<^verbatim>\<open>error\<close> value of this package: what a JSON decoder, a number conversion
  or the URL parser reports, or an \<^verbatim>\<open>*ErrorResponse\<close>.\<close>

datatype url_error = InvalidControlChar | MissingProtocolScheme | ColonInFirstSegment
  | EscapeError | InvalidHostError | InvalidPort | InvalidUserinfo | MissingBracket

datatype error =
    json_err json_error
  | url_err url_error
  | api_err ErrorResponse

datatype panic = NilPointerDereference | ReflectPanic




text \<open>
  Decoding a JSON value into a Go destination (\<^verbatim>\<open>encoding/json\<close>). Each function
  returns the new value of the destination and whether a type error was saved; the
  decoder goes on after a type error and reports the first one at the end.
  \<^item> A string takes a JSON string, an \<^verbatim>\<open>int\<close> a number literal that
    \<^verbatim>\<open>ParseInt\<close> accepts; \<^verbatim>\<open>null\<close> leaves both as they are.
  \<^item> A pointer to a struct becomes nil on \<^verbatim>\<open>null\<close>; for any other value a nil
    pointer is first set to a new zero struct, and only an object is then decoded into
    the struct.
  \<^item> The members of an object are taken in order; a member is stored in the field
    whose name equals the key under Unicode simple case folding (for an ASCII name:
    ASCII letters in either case, U+017F for \<^verbatim>\<open>s\<close> and U+212A for \<^verbatim>\<open>k\<close>); a key
    that names no field is skipped.
\<close>

definition to_upper :: "char \<Rightarrow> char" where
  "to_upper c = (if is_lower c then char_of (of_char c - (32::nat)) else c)"

fun fold_name :: "string \<Rightarrow> string" where
  "fold_name [] = []"
| "fold_name [a] = [to_upper a]"
| "fold_name [a, b] =
     (if a = CHR 0xC5 \<and> b = CHR 0xBF then ''S'' else to_upper a # fold_name [b])"
| "fold_name (a # b # c # s) =
     (if a = CHR 0xE2 \<and> b = CHR 0x84 \<and> c = CHR 0xAA then CHR ''K'' # fold_name s
      else if a = CHR 0xC5 \<and> b = CHR 0xBF then CHR ''S'' # fold_name (c # s)
      else to_upper a # fold_name (b # c # s))"

definition names_field :: "string \<Rightarrow> string \<Rightarrow> bool" where
  "names_field key name = (fold_name key = fold_name name)"

definition store_string :: "json \<Rightarrow> string \<Rightarrow> string \<times> bool" where
  "store_string v old =
     (case v of JString s \<Rightarrow> (s, False) | JNull \<Rightarrow> (old, False) | _ \<Rightarrow> (old, True))"

definition store_int :: "json \<Rightarrow> int \<Rightarrow> int \<times> bool" where
  "store_int v old =
     (case v of
        JNumber lit \<Rightarrow> (case ParseInt lit of (n, None) \<Rightarrow> (n, False) | _ \<Rightarrow> (old, True))
      | JNull \<Rightarrow> (old, False)
      | _ \<Rightarrow> (old, True))"

definition store_ptr ::
  "((string \<times> json) list \<Rightarrow> 'a \<Rightarrow> 'a \<times> bool) \<Rightarrow> 'a \<Rightarrow> json \<Rightarrow> 'a option \<Rightarrow> 'a option \<times> bool" where
  "store_ptr members zero v old =
     (case v of
        JNull \<Rightarrow> (None, False)
      | JObject kvs \<Rightarrow>
          (let (x, bad) = members kvs (case old of None \<Rightarrow> zero | Some x \<Rightarrow> x) in (Some x, bad))
      | _ \<Rightarrow> (Some (case old of None \<Rightarrow> zero | Some x \<Rightarrow> x), True))"

fun store_members ::
  "(string \<Rightarrow> json \<Rightarrow> 'a \<Rightarrow> 'a \<times> bool) \<Rightarrow> (string \<times> json) list \<Rightarrow> 'a \<Rightarrow> 'a \<times> bool" where
  "store_members field [] x = (x, False)"
| "store_members field ((k, v) # kvs) x =
     (let (x', bad) = field k v x; (x'', bad') = store_members field kvs x'
      in (x'', bad \<or> bad'))"

definition Pagination_field :: "string \<Rightarrow> json \<Rightarrow> Pagination \<Rightarrow> Pagination \<times> bool" where
  "Pagination_field k v p =
     (if names_field k ''current_page'' then
        (let (n, bad) = store_int v (CurrentPage p) in (p\<lparr>CurrentPage := n\<rparr>, bad))
      else if names_field k ''per_page'' then
        (let (n, bad) = store_int v (PerPage p) in (p\<lparr>PerPage := n\<rparr>, bad))
      else if names_field k ''total_pages'' then
        (let (n, bad) = store_int v (TotalPages p) in (p\<lparr>TotalPages := n\<rparr>, bad))
      else if names_field k ''total_entries'' then
        (let (n, bad) = store_int v (TotalEntries p) in (p\<lparr>TotalEntries := n\<rparr>, bad))
      else (p, False))"

definition zero_Pagination :: Pagination where
  "zero_Pagination = \<lparr> CurrentPage = 0, PerPage = 0, TotalPages = 0, TotalEntries = 0 \<rparr>"

text \<open>
  The fields of \<^verbatim>\<open>ErrorResponse\<close> as the decoder sees them: \<^verbatim>\<open>Message\<close>
  (\<^verbatim>\<open>json:"message"\<close>) and, promoted from the embedded \<^verbatim>\<open>Response\<close>,
  \<^verbatim>\<open>Pagination\<close> (\<^verbatim>\<open>json:"pagination"\<close>) and \<^verbatim>\<open>HttpResponse\<close> (no tag, so its
  JSON name is the field name). What a member named \<^verbatim>\<open>HttpResponse\<close> does to the
  \<^verbatim>\<open>*http.Response\<close> depends on the whole of that standard library struct; it is the
  parameter \<open>into_http\<close>.
\<close>

type_synonym http_store = "json \<Rightarrow> http_Response option \<Rightarrow> http_Response option \<times> bool"

definition ErrorResponse_field ::
  "http_store \<Rightarrow> string \<Rightarrow> json \<Rightarrow> ErrorResponse \<Rightarrow> ErrorResponse \<times> bool" where
  "ErrorResponse_field into_http k v e =
     (if names_field k ''message'' then
        (let (s, bad) = store_string v (Message e) in (e\<lparr>Message := s\<rparr>, bad))
      else if names_field k ''pagination'' then
        (let (p, bad) = store_ptr (store_members Pagination_field) zero_Pagination v (Pagination e)
         in (e\<lparr>Pagination := p\<rparr>, bad))
      else if names_field k ''HttpResponse'' then
        (let (r, bad) = into_http v (HttpResponse e) in (e\<lparr>HttpResponse := r\<rparr>, bad))
      else (e, False))"

text \<open>\<^verbatim>\<open>json.NewDecoder(body).Decode(errorResponse)\<close>: the destination as it is left,
  and the error. A syntax error leaves the destination untouched; at the top level
  \<^verbatim>\<open>null\<close> changes nothing and any other value that is no object is a type error.\<close>

definition Decode_ErrorResponse ::
  "http_store \<Rightarrow> string \<Rightarrow> ErrorResponse \<Rightarrow> ErrorResponse \<times> json_error option" where
  "Decode_ErrorResponse into_http body e =
     (case Decoder_value body of
        Inl err \<Rightarrow> (e, Some err)
      | Inr JNull \<Rightarrow> (e, None)
      | Inr (JObject kvs) \<Rightarrow>
          (let (e', bad) = store_members (ErrorResponse_field into_http) kvs e
           in (e', if bad then Some UnmarshalTypeError else None))
      | Inr _ \<Rightarrow> (e, Some UnmarshalTypeError))"

text \<open>\<^verbatim>\<open>CheckResponse\<close>, as in the source. The result is Go's \<^verbatim>\<open>error\<close>: \<open>None\<close> is
  \<^verbatim>\<open>nil\<close>.\<close>

definition CheckResponse :: "http_store \<Rightarrow> http_Response \<Rightarrow> error option" where
  "CheckResponse into_http resp =
     (let code = StatusCode resp in
      if 200 \<le> code \<and> code \<le> 299 then None
      else
        (let errorResponse = \<lparr> HttpResponse = None, Pagination = None, Message = [] \<rparr>;
             errorResponse = errorResponse\<lparr> HttpResponse := Some resp \<rparr>
         in case Decode_ErrorResponse into_http (Body resp) errorResponse of
              (_, Some err) \<Rightarrow> Some (json_err err)
            | (errorResponse', None) \<Rightarrow> Some (api_err errorResponse')))"

subsection \<open>Webhook events (webhook/events.go)\<close>


text \<open>
  Modelled from the spec: the struct \<^verbatim>\<open>dnsimple.Domain\<close> is declared outside the given
  sources. A decoded domain resource is represented by the members of the JSON objects
  that were decoded into it, in the order of the text.
\<close>

type_synonym Domain = "(string \<times> json) list"




















subsection \<open>Notions of the specification, and example values\<close>






text \<open>Example responses: a 404 with the error body of the API, and a response with the
  three rate-limit headers added by \<^verbatim>\<open>Header.Add\<close>.\<close>

definition not_found :: http_Response where
  "not_found = \<lparr> StatusCode = 404, Header = Map.empty,
                  Body = ''{\"message\":\"Record not found\"}'',
                  Request = \<lparr> Method = ''GET'', URL = ''https://api.dnsimple.com/v2/1010/contacts/1'' \<rparr> \<rparr>"






section \<open>Theorems\<close>

subsection \<open>Base64: decoding inverts encoding\<close>

lemma length_encodeStd: "length encodeStd = 64" by (simp add: encodeStd_def)
lemma distinct_encodeStd: "distinct encodeStd" by (simp add: encodeStd_def)

lemma index_of_nth: "distinct xs \<Longrightarrow> n < length xs \<Longrightarrow> index_of (xs ! n) xs = Some n"
proof (induction xs arbitrary: n)
  case Nil then show ?case by simp
next
  case (Cons x xs)
  show ?case
  proof (cases n)
    case 0 then show ?thesis by simp
  next
    case (Suc m)
    with Cons.prems have "m < length xs" "distinct xs" "xs ! m \<noteq> x"
      by (auto simp: nth_mem)
    with Cons.IH[of m] Suc show ?thesis by simp
  qed
qed

lemma decodeMap_enc6: "decodeMap (enc6 n) = Some (n mod 64)"
  unfolding decodeMap_def enc6_def
  by (rule index_of_nth[OF distinct_encodeStd]) (simp add: length_encodeStd)

lemma enc6_in: "enc6 n \<in> set encodeStd"
  unfolding enc6_def by (rule nth_mem) (simp add: length_encodeStd)

lemma eq_notin: "CHR ''='' \<notin> set encodeStd" by (simp add: encodeStd_def)
lemma cr_notin: "CHR 0x0D \<notin> set encodeStd" by (simp add: encodeStd_def)
lemma lf_notin: "CHR 0x0A \<notin> set encodeStd" by (simp add: encodeStd_def)

lemma enc6_not_special: "enc6 n \<noteq> CHR ''=''" "enc6 n \<noteq> CHR 0x0D" "enc6 n \<noteq> CHR 0x0A"
  using enc6_in[of n] eq_notin cr_notin lf_notin by metis+

lemma digits64:
  fixes v :: nat
  assumes "v < 16777216"
  shows "(v div 262144) mod 64 * 262144 + (v div 4096) mod 64 * 4096 + (v div 64) mod 64 * 64 + v mod 64 = v"
proof -
  have a: "v = 64 * (v div 64) + v mod 64" by simp
  have "v div 4096 = (v div 64) div 64" by (simp add: div_mult2_eq)
  then have b: "v div 64 = 64 * (v div 4096) + (v div 64) mod 64" by simp
  have "v div 262144 = (v div 4096) div 64" by (simp add: div_mult2_eq)
  then have c: "v div 4096 = 64 * (v div 262144) + (v div 4096) mod 64" by simp
  have "v div 262144 < 64" using assms by simp
  then have d: "(v div 262144) mod 64 = v div 262144" by simp
  show ?thesis using a b c d by linarith
qed



lemma nat3:
  fixes x y z :: nat
  assumes "y < 256" "z < 256"
  defines "v \<equiv> x * 65536 + y * 256 + z"
  shows "v div 65536 = x" "(v div 256) mod 256 = y" "v mod 256 = z"
proof -
  have "65536 * x \<le> v" "v < 65536 * Suc x"
    using assms(1,2) unfolding v_def by simp_all
  then show "v div 65536 = x" by (rule div_nat_eqI)
  have "256 * (x * 256 + y) \<le> v" "v < 256 * Suc (x * 256 + y)"
    using assms(2) unfolding v_def by simp_all
  then have "v div 256 = x * 256 + y" by (rule div_nat_eqI)
  then show "(v div 256) mod 256 = y" using assms(1) by simp
  have "v = z + 256 * (x * 256 + y)" unfolding v_def by simp
  then have "v mod 256 = z mod 256" by (simp only: mod_mult_self2)
  then show "v mod 256 = z" using assms(2) by simp
qed

lemma bytes3:
  fixes a b c :: char
  defines "v \<equiv> (of_char a :: nat) * 65536 + of_char b * 256 + of_char c"
  shows "v < 16777216" "char_of (v div 65536) = a" "char_of (v div 256) = b" "char_of v = c"
proof -
  have la: "(of_char a :: nat) < 256" and lb: "(of_char b :: nat) < 256"
    and lc: "(of_char c :: nat) < 256" by simp_all
  note N = nat3[OF lb lc, of "of_char a", folded v_def]
  have "v div 65536 < 256" using N(1) la by simp
  then show "v < 16777216" by simp
  show "char_of (v div 65536) = a" by (simp add: N(1))
  have "char_of ((v div 256) mod 256) = b" by (simp only: N(2) char_of_char)
  then show "char_of (v div 256) = b" by simp
  have "char_of (v mod 256) = c" by (simp only: N(3) char_of_char)
  then show "char_of v = c" by simp
qed


lemma enc6_mod: "enc6 (n mod 64) = enc6 n"
  by (simp add: enc6_def)

lemma decodeQuanta_digits:
  assumes "v0 < 64" "v1 < 64" "v2 < 64" "v3 < 64"
  shows "decodeQuanta (enc6 v0 # enc6 v1 # enc6 v2 # enc6 v3 # rest)
       = map_option (\<lambda>r. char_of ((v0 * 262144 + v1 * 4096 + v2 * 64 + v3) div 65536) #
                          char_of ((v0 * 262144 + v1 * 4096 + v2 * 64 + v3) div 256) #
                          char_of (v0 * 262144 + v1 * 4096 + v2 * 64 + v3) # r)
           (decodeQuanta rest)"
  using assms by (simp add: decodeMap_enc6 enc6_not_special)



lemma decodeQuanta_full:
  assumes "v < 16777216"
  shows "decodeQuanta (enc6 (v div 262144) # enc6 (v div 4096) # enc6 (v div 64) # enc6 v # rest)
       = map_option (\<lambda>r. char_of (v div 65536) # char_of (v div 256) # char_of v # r)
           (decodeQuanta rest)"
proof -
  define d0 d1 d2 d3 where "d0 = (v div 262144) mod 64" and "d1 = (v div 4096) mod 64"
    and "d2 = (v div 64) mod 64" and "d3 = v mod 64"
  have lt: "d0 < 64" "d1 < 64" "d2 < 64" "d3 < 64" by (simp_all add: d0_def d1_def d2_def d3_def)
  have e: "d0 * 262144 + d1 * 4096 + d2 * 64 + d3 = v"
    unfolding d0_def d1_def d2_def d3_def by (rule digits64[OF assms])
  have "decodeQuanta (enc6 d0 # enc6 d1 # enc6 d2 # enc6 d3 # rest)
       = map_option (\<lambda>r. char_of (v div 65536) # char_of (v div 256) # char_of v # r)
           (decodeQuanta rest)"
    unfolding decodeQuanta_digits[OF lt] e ..
  then show ?thesis unfolding d0_def d1_def d2_def d3_def enc6_mod .
qed

lemma decodeQuanta_pad1:
  assumes "v < 16777216" "v mod 64 = 0"
  shows "decodeQuanta [enc6 (v div 262144), enc6 (v div 4096), enc6 (v div 64), CHR ''='']
       = Some [char_of (v div 65536), char_of (v div 256)]"
proof -
  define d0 d1 d2 where "d0 = (v div 262144) mod 64" and "d1 = (v div 4096) mod 64"
    and "d2 = (v div 64) mod 64"
  have e: "d0 * 262144 + d1 * 4096 + d2 * 64 = v"
    unfolding d0_def d1_def d2_def
    by (rule digits64[OF assms(1), unfolded assms(2) add_0_right])
  have "decodeQuanta [enc6 d0, enc6 d1, enc6 d2, CHR ''='']
       = Some [char_of ((d0 * 262144 + d1 * 4096 + d2 * 64) div 65536),
               char_of ((d0 * 262144 + d1 * 4096 + d2 * 64) div 256)]"
    by (simp add: decodeMap_enc6 enc6_not_special d0_def d1_def d2_def)
  then show ?thesis unfolding e unfolding d0_def d1_def d2_def enc6_mod .
qed

lemma decodeQuanta_pad2:
  assumes "v < 16777216" "v mod 64 = 0" "(v div 64) mod 64 = 0"
  shows "decodeQuanta [enc6 (v div 262144), enc6 (v div 4096), CHR ''='', CHR ''='']
       = Some [char_of (v div 65536)]"
proof -
  define d0 d1 where "d0 = (v div 262144) mod 64" and "d1 = (v div 4096) mod 64"
  have e: "d0 * 262144 + d1 * 4096 = v"
    unfolding d0_def d1_def
    by (rule digits64[OF assms(1), unfolded assms(2) assms(3) mult_zero_left add_0_right])
  have "decodeQuanta [enc6 d0, enc6 d1, CHR ''='', CHR ''='']
       = Some [char_of ((d0 * 262144 + d1 * 4096) div 65536)]"
    by (simp add: decodeMap_enc6 enc6_not_special d0_def d1_def)
  then show ?thesis unfolding e unfolding d0_def d1_def enc6_mod .
qed

lemma mod64_zero:
  fixes x y :: nat
  shows "(x * 65536 + y * 256) mod 64 = 0" "(x * 65536) mod 64 = 0" "((x * 65536) div 64) mod 64 = 0"
proof -
  have "x * 65536 + y * 256 = 64 * (x * 1024 + y * 4)" by simp
  then show "(x * 65536 + y * 256) mod 64 = 0" by (simp only: mod_mult_self1_is_0)
  have a: "x * 65536 = 64 * (x * 1024)" by simp
  then show "(x * 65536) mod 64 = 0" by (simp only: mod_mult_self1_is_0)
  have "(x * 65536) div 64 = 64 * (x * 16)" by simp
  then show "((x * 65536) div 64) mod 64 = 0" by (simp only: mod_mult_self1_is_0)
qed

lemma decodeQuanta_Encode: "decodeQuanta (EncodeToString s) = Some s"
proof (induction s rule: EncodeToString.induct)
  case (1 a b c src)
  define v where "v = (of_char a :: nat) * 65536 + of_char b * 256 + of_char c"
  note B = bytes3[of a b c, folded v_def]
  have "decodeQuanta (EncodeToString (a # b # c # src))
      = decodeQuanta (enc6 (v div 262144) # enc6 (v div 4096) # enc6 (v div 64) # enc6 v
          # EncodeToString src)"
    by (simp only: EncodeToString.simps Let_def v_def)
  also have "\<dots> = Some (a # b # c # src)"
    by (simp only: decodeQuanta_full[OF B(1)] "1.IH" B option.map)
  finally show ?case .
next
  case (2 a b)
  define v where "v = (of_char a :: nat) * 65536 + of_char b * 256"
  have v0: "v = of_char a * 65536 + of_char b * 256 + of_char (CHR 0x00)" by (simp add: v_def)
  note B = bytes3[of a b "CHR 0x00", folded v0]
  have z: "v mod 64 = 0" unfolding v_def by (rule mod64_zero)
  have "decodeQuanta (EncodeToString [a, b])
      = decodeQuanta [enc6 (v div 262144), enc6 (v div 4096), enc6 (v div 64), CHR ''='']"
    by (simp only: EncodeToString.simps Let_def v_def)
  also have "\<dots> = Some [char_of (v div 65536), char_of (v div 256)]"
    by (rule decodeQuanta_pad1[OF B(1) z])
  finally show ?case by (simp only: B)
next
  case (3 a)
  define v where "v = (of_char a :: nat) * 65536"
  have v0: "v = of_char a * 65536 + of_char (CHR 0x00) * 256 + of_char (CHR 0x00)" by (simp add: v_def)
  note B = bytes3[of a "CHR 0x00" "CHR 0x00", folded v0]
  have z: "v mod 64 = 0" "(v div 64) mod 64 = 0" unfolding v_def by (rule mod64_zero)+
  have "decodeQuanta (EncodeToString [a])
      = decodeQuanta [enc6 (v div 262144), enc6 (v div 4096), CHR ''='', CHR ''='']"
    by (simp only: EncodeToString.simps Let_def v_def)
  also have "\<dots> = Some [char_of (v div 65536)]"
    by (rule decodeQuanta_pad2[OF B(1) z])
  finally show ?case by (simp only: B)
next
  case 4
  show ?case by simp
qed

lemma Encode_no_newline: "filter (\<lambda>c. c \<noteq> CHR 0x0D \<and> c \<noteq> CHR 0x0A) (EncodeToString s) = EncodeToString s"
  by (induction s rule: EncodeToString.induct) (simp_all only: EncodeToString.simps Let_def filter.simps enc6_not_special simp_thms if_True char.inject)

lemma DecodeString_EncodeToString: "DecodeString (EncodeToString s) = Some s"
  by (simp only: DecodeString_def Encode_no_newline decodeQuanta_Encode)

subsection \<open>Credentials\<close>

text \<open>
  Claim C7. Each of the three credential variants returns its documented header pair:
  the domain-token variant returns the header \<^verbatim>\<open>X-DNSimple-Domain-Token\<close> with the raw
  token; the basic-auth variant returns \<^verbatim>\<open>Authorization\<close> with \<^verbatim>\<open>Basic \<close> followed by
  the standard base64 encoding of \<^verbatim>\<open>email:password\<close>, and the part after \<^verbatim>\<open>Basic \<close>
  decodes back to \<^verbatim>\<open>email:password\<close>; the bearer variant returns \<^verbatim>\<open>Authorization\<close>
  with \<^verbatim>\<open>Bearer \<close> followed by the token.
\<close>

theorem HttpHeader_documented:
  "HttpHeader (domainTokenCredentials token) = (''X-DNSimple-Domain-Token'', token)
   \<and> HttpHeader (httpBasicCredentials email password)
       = (''Authorization'', ''Basic '' @ EncodeToString (email @ '':'' @ password))
   \<and> DecodeString (drop (length ''Basic '') (snd (HttpHeader (httpBasicCredentials email password))))
       = Some (email @ '':'' @ password)
   \<and> HttpHeader (oauthTokenCredentials token) = (''Authorization'', ''Bearer '' @ token)"
  by (simp add: httpHeaderDomainToken_def httpHeaderAuthorization_def basicAuth_def
      DecodeString_EncodeToString)

subsection \<open>Response checking\<close>









text \<open>
  Claim C10. For a status code outside 200..299 whose body does not decode as JSON into
  the error shape, \<^verbatim>\<open>CheckResponse\<close> returns the decoder's error itself; it returns
  an \<^verbatim>\<open>ErrorResponse\<close> exactly when the body decodes without error.
\<close>

theorem CheckResponse_undecodable_body:
  assumes "\<not> (200 \<le> StatusCode resp \<and> StatusCode resp \<le> 299)"
  shows "(\<forall>err. snd (Decode_ErrorResponse into_http (Body resp)
                      \<lparr> HttpResponse = Some resp, Pagination = None, Message = [] \<rparr>) = Some err
             \<longrightarrow> CheckResponse into_http resp = Some (json_err err))
       \<and> ((\<exists>e. CheckResponse into_http resp = Some (api_err e))
            \<longleftrightarrow> snd (Decode_ErrorResponse into_http (Body resp)
                      \<lparr> HttpResponse = Some resp, Pagination = None, Message = [] \<rparr>) = None)"
  using assms
  by (auto simp: CheckResponse_def Let_def split: prod.splits option.splits)

lemma Decoder_value_html: "Decoder_value ''<html>Bad Gateway</html>'' = Inl SyntaxError"
  by code_simp

theorem CheckResponse_undecodable_body_witness:
  "CheckResponse (\<lambda>v r. (r, False))
     (not_found\<lparr> StatusCode := 502, Body := ''<html>Bad Gateway</html>'' \<rparr>)
   = Some (json_err SyntaxError)"
  using CheckResponse_undecodable_body
          [of "not_found\<lparr> StatusCode := 502, Body := ''<html>Bad Gateway</html>'' \<rparr>"
              "\<lambda>v r. (r, False)"]
  by (simp add: Decode_ErrorResponse_def Decoder_value_html)

subsection \<open>Rate-limit accessors\<close>












subsection \<open>Webhook dispatch\<close>
























end
